theory Spec2Isabelle
  imports Main "HOL-Library.Monad_Syntax"
begin

section \<open>The check_fr24feed plugin: constants\<close>

text \<open>
  The plugin is one linear routine: parse the command line, fetch \<open>monitor.json\<close>,
  extract freshness, metrics and status, compare against two thresholds, print one line
  and exit. The model below follows \<open>check_fr24feed.py\<close> function by function. What
  the script obtains from outside (the outcome of argparse, the HTTP exchange, the clock)
  is an argument of \<open>main\<close>; what it does to the outside (standard output, the exit
  status) is the value \<open>main\<close> returns.
\<close>

definition STATE_OK :: nat where "STATE_OK = 0"
definition STATE_WARN :: nat where "STATE_WARN = 1"
definition STATE_CRIT :: nat where "STATE_CRIT = 2"
definition STATE_UNKNOWN :: nat where "STATE_UNKNOWN = 3"

definition DEFAULT_PORT :: string where "DEFAULT_PORT = ''8754''"
definition DEFAULT_WARN :: int where "DEFAULT_WARN = 600"
definition DEFAULT_CRIT :: int where "DEFAULT_CRIT = 3600"

definition version_number :: string where "version_number = ''2022031701''"
definition author :: string where "author = ''Andreas Bucher''"

section \<open>Python text\<close>

text \<open>
  Text is modelled over the code points 0 to 255. \<open>newline\<close>, \<open>squote\<close> and
  \<open>dquote\<close> are the characters written \<^verbatim>\<open>\n\<close>, \<^verbatim>\<open>'\<close> and \<^verbatim>\<open>"\<close> in the source.
\<close>

definition newline :: char where "newline = CHR 0x0A"
definition squote :: char where "squote = CHR 0x27"
definition dquote :: char where "dquote = CHR 0x22"

text \<open>\<open>print(s)\<close> writes \<open>s\<close> and a newline to standard output.\<close>

definition print :: "string \<Rightarrow> string" where
  "print s = s @ [newline]"

text \<open>
  \<open>str.isspace\<close> on the code points below 256, which is what \<open>str.strip()\<close> removes
  from both ends.
\<close>

definition py_isspace :: "char \<Rightarrow> bool" where
  "py_isspace c \<longleftrightarrow> (of_char c :: int) \<in> {9, 10, 11, 12, 13, 28, 29, 30, 31, 32, 133, 160}"

definition strip :: "string \<Rightarrow> string" where
  "strip s = dropWhile py_isspace (rev (dropWhile py_isspace (rev s)))"

text \<open>\<open>str(n)\<close> for an integer: decimal digits, a minus sign for negative numbers.\<close>

definition digit_char :: "int \<Rightarrow> char" where
  "digit_char d = ''0123456789'' ! nat d"

function str_digits :: "int \<Rightarrow> string" where
  "str_digits n =
     (if n < 10 then [digit_char n] else str_digits (n div 10) @ [digit_char (n mod 10)])"
  by pat_completeness auto
termination
  by (relation "measure nat") auto

declare str_digits.simps [simp del]

definition str_int :: "int \<Rightarrow> string" where
  "str_int i = (if i < 0 then CHR ''-'' # str_digits (- i) else str_digits i)"

section \<open>Decoded JSON\<close>

text \<open>
  The values of the fields the plugin reads: JSON null, booleans, integers and strings
  (Python \<open>None\<close>, \<open>bool\<close>, \<open>int\<close>, \<open>str\<close>). Floating-point numbers and nested
  containers as field values are outside the model. A decoded body is a dictionary or
  some other JSON value; subscripting the latter with a string raises \<open>TypeError\<close>.
\<close>

datatype jval = JNull | JBool bool | JInt int | JStr string

datatype decoded = Mapping "string \<rightharpoonup> jval" | NonMapping

text \<open>\<open>data[key]\<close>: \<open>None\<close> stands for the exception (\<open>KeyError\<close> or \<open>TypeError\<close>).\<close>

fun subscript :: "decoded \<Rightarrow> string \<Rightarrow> jval option" where
  "subscript (Mapping m) k = m k"
| "subscript NonMapping k = None"

text \<open>\<open>'{}'.format(v)\<close>, which is \<open>str(v)\<close>.\<close>

fun py_format :: "jval \<Rightarrow> string" where
  "py_format JNull = ''None''"
| "py_format (JBool b) = (if b then ''True'' else ''False'')"
| "py_format (JInt n) = str_int n"
| "py_format (JStr s) = s"

fun type_name :: "jval \<Rightarrow> string" where
  "type_name JNull = ''NoneType''"
| "type_name (JBool b) = ''bool''"
| "type_name (JInt n) = ''int''"
| "type_name (JStr s) = ''str''"

subsection \<open>The built-in \<open>int()\<close>\<close>

text \<open>
  \<open>int(s)\<close> for a string skips white space at both ends (the C locale's white space
  and, of the code points above 127, U+0085 and U+00A0; not U+001C to U+001F, which
  \<open>strip\<close> does remove), reads an optional sign, and then decimal digits in which single
  underscores may separate digits. Everything else raises \<open>ValueError\<close>. The limit
  that newer interpreters put on the number of digits is left out: the plugin hands every
  converted number to \<open>utcfromtimestamp\<close>, which rejects numbers of that size.
\<close>

definition int_isspace :: "char \<Rightarrow> bool" where
  "int_isspace c \<longleftrightarrow> (of_char c :: int) \<in> {9, 10, 11, 12, 13, 32, 133, 160}"

definition is_digit :: "char \<Rightarrow> bool" where
  "is_digit c \<longleftrightarrow> 48 \<le> (of_char c :: int) \<and> (of_char c :: int) \<le> 57"

definition digit_value :: "char \<Rightarrow> int" where
  "digit_value c = of_char c - 48"

fun digits_value :: "int \<Rightarrow> bool \<Rightarrow> string \<Rightarrow> int option" where
  "digits_value acc prev [] = (if prev then Some acc else None)"
| "digits_value acc prev (c # cs) =
     (if is_digit c then digits_value (acc * 10 + digit_value c) True cs
      else if c = CHR ''_'' \<and> prev then digits_value acc False cs
      else None)"

definition int_of_str :: "string \<Rightarrow> int option" where
  "int_of_str s =
     (case dropWhile int_isspace (rev (dropWhile int_isspace (rev s))) of
        [] \<Rightarrow> None
      | c # cs \<Rightarrow>
          if c = CHR ''-'' then map_option uminus (digits_value 0 False cs)
          else if c = CHR ''+'' then digits_value 0 False cs
          else digits_value 0 False (c # cs))"

text \<open>\<open>int(v)\<close>; \<open>None\<close> stands for \<open>TypeError\<close> or \<open>ValueError\<close>.\<close>

fun py_int :: "jval \<Rightarrow> int option" where
  "py_int JNull = None"
| "py_int (JBool b) = Some (if b then 1 else 0)"
| "py_int (JInt n) = Some n"
| "py_int (JStr s) = int_of_str s"

subsection \<open>Exceptions that reach a handler which reports them\<close>

text \<open>An exception is its type's name and \<open>repr\<close> of its \<open>args\<close> tuple.\<close>

datatype exn = Exn string string

definition exception_message :: "exn \<Rightarrow> string" where
  "exception_message ex =
     (case ex of Exn name args_repr \<Rightarrow>
        ''An exception of type '' @ name @ '' occurred. Arguments:'' @ [newline] @ args_repr)"

text \<open>\<open>v + t\<close> for a string \<open>t\<close>: concatenation when \<open>v\<close> is a string, \<open>TypeError\<close> otherwise.\<close>

definition py_add_str :: "jval \<Rightarrow> string \<Rightarrow> exn + string" where
  "py_add_str v t =
     (case v of
        JStr s \<Rightarrow> Inr (s @ t)
      | _ \<Rightarrow> Inl (Exn ''TypeError''
                 (''('' @ [dquote] @ ''unsupported operand type(s) for +: '' @ [squote] @ type_name v
                   @ [squote] @ '' and '' @ [squote] @ ''str'' @ [squote] @ [dquote] @ '',)'')))"

section \<open>Dates and times\<close>

text \<open>
  A naive \<open>datetime\<close> is represented by its distance from 1970-01-01 00:00:00 in
  microseconds. \<open>utcfromtimestamp\<close> raises outside the years 1 to 9999.
\<close>

type_synonym datetime = int

definition MIN_TIMESTAMP :: int where "MIN_TIMESTAMP = - 62135596800"
definition MAX_TIMESTAMP :: int where "MAX_TIMESTAMP = 253402300799"

definition utcfromtimestamp :: "int \<Rightarrow> datetime option" where
  "utcfromtimestamp t =
     (if MIN_TIMESTAMP \<le> t \<and> t \<le> MAX_TIMESTAMP then Some (t * 1000000) else None)"

text \<open>
  A \<open>timedelta\<close> is normalised: \<open>0 \<le> seconds < 86400\<close> and \<open>0 \<le> microseconds < 1000000\<close>,
  the sign is carried by \<open>days\<close>.
\<close>

record timedelta =
  days :: int
  seconds :: int
  microseconds :: int

definition timedelta_of_us :: "int \<Rightarrow> timedelta" where
  "timedelta_of_us us =
     \<lparr>days = us div 86400000000,
      seconds = (us mod 86400000000) div 1000000,
      microseconds = us mod 1000000\<rparr>"

definition us_of_timedelta :: "timedelta \<Rightarrow> int" where
  "us_of_timedelta d = (days d * 86400 + seconds d) * 1000000 + microseconds d"

definition datetime_sub :: "datetime \<Rightarrow> datetime \<Rightarrow> timedelta" where
  "datetime_sub a b = timedelta_of_us (a - b)"

definition timedelta_neg :: "timedelta \<Rightarrow> timedelta" where
  "timedelta_neg d = timedelta_of_us (- us_of_timedelta d)"

definition timedelta_abs :: "timedelta \<Rightarrow> timedelta" where
  "timedelta_abs d = (if days d < 0 then timedelta_neg d else d)"

text \<open>
  \<open>strftime("%Y-%m-%d %H:%M:%S")\<close>: the civil date of the proleptic Gregorian calendar.
  The year is written with the digits it has, as the C library does for years below
  1000; month, day, hour, minute and second with two digits.
\<close>

definition civil_from_days :: "int \<Rightarrow> int \<times> int \<times> int" where
  "civil_from_days z0 =
     (let z = z0 + 719468;
          era = z div 146097;
          doe = z mod 146097;
          yoe = (doe - doe div 1460 + doe div 36524 - doe div 146096) div 365;
          doy = doe - (365 * yoe + yoe div 4 - yoe div 100);
          mp = (5 * doy + 2) div 153;
          d = doy - (153 * mp + 2) div 5 + 1;
          m = (if mp < 10 then mp + 3 else mp - 9);
          y = yoe + era * 400 + (if m \<le> 2 then 1 else 0)
      in (y, m, d))"

definition pad2 :: "int \<Rightarrow> string" where
  "pad2 n = (if n < 10 then CHR ''0'' # str_int n else str_int n)"

definition strftime :: "datetime \<Rightarrow> string" where
  "strftime dt =
     (let secs = dt div 1000000;
          sod = secs mod 86400
      in case civil_from_days (secs div 86400) of (y, m, d) \<Rightarrow>
           str_int y @ ''-'' @ pad2 m @ ''-'' @ pad2 d @ '' '' @
           pad2 (sod div 3600) @ '':'' @ pad2 (sod mod 3600 div 60) @ '':'' @ pad2 (sod mod 60))"

section \<open>Common functions\<close>

text \<open>
  A process that has ended: what it wrote to standard output and its exit status.
\<close>

type_synonym process = "string \<times> nat"

abbreviation (input) stdout :: "process \<Rightarrow> string" where "stdout \<equiv> fst"
abbreviation (input) exit_status :: "process \<Rightarrow> nat" where "exit_status \<equiv> snd"

text \<open>\<open>get_perfdata\<close>: \<open>'label'=value[UOM];[warn];[crit];[min];[max]\<close> and a space.\<close>

definition get_perfdata ::
  "string \<Rightarrow> jval \<Rightarrow> string option \<Rightarrow> int option \<Rightarrow> int option \<Rightarrow> int option \<Rightarrow> int option \<Rightarrow> string"
where
  "get_perfdata label v uom warn crit mn mx =
     [squote] @ label @ [squote] @ ''='' @ py_format v
     @ (case uom of None \<Rightarrow> [] | Some u \<Rightarrow> u) @ '';''
     @ (case warn of None \<Rightarrow> [] | Some w \<Rightarrow> str_int w) @ '';''
     @ (case crit of None \<Rightarrow> [] | Some c \<Rightarrow> str_int c) @ '';''
     @ (case mn of None \<Rightarrow> [] | Some m \<Rightarrow> str_int m) @ '';''
     @ (case mx of None \<Rightarrow> [] | Some m \<Rightarrow> str_int m) @ '' ''"

text \<open>
  \<open>oao\<close> (over and out) prints the stripped message, with the stripped performance data
  after a bar when there is any, and ends the process.
\<close>

definition oao :: "string \<Rightarrow> nat \<Rightarrow> string \<Rightarrow> bool \<Rightarrow> process" where
  "oao msg state perfdata always_ok =
     ((if perfdata \<noteq> [] then print (strip msg @ ''|'' @ strip perfdata) else print (strip msg)),
      (if always_ok then 0 else state))"

text \<open>
  The pairs \<open>(False, reason)\<close> and \<open>(True, result)\<close> that the check functions return are
  \<open>Inl reason\<close> and \<open>Inr result\<close>. \<open>coe\<close> (continue or exit) hands the result on, or
  prints the reason and ends the process with \<open>state\<close>.
\<close>

definition coe :: "string + 'a \<Rightarrow> nat \<Rightarrow> process + 'a" where
  "coe result state =
     (case result of Inr v \<Rightarrow> Inr v | Inl reason \<Rightarrow> Inl (print reason, state))"

section \<open>Specific check functions\<close>

subsection \<open>The command line\<close>

record args =
  ALWAYS_OK :: bool
  HOST_IP :: string
  HOST_PORT :: string
  CRIT :: int
  WARN :: int

text \<open>
  \<open>parse_args\<close> declares the options and calls argparse, a library. Its call either
  returns the namespace of option values or raises \<open>SystemExit\<close>, after writing some text
  to standard output: the version action writes the version line and exits with 0, the
  help action does so with the help text, and a usage error (an unknown or malformed
  argument, a missing \<open>--host\<close>, a threshold that is no integer) writes to standard
  error only and exits with 2.
\<close>

datatype parse_result = SystemExit string nat | Namespace args

definition version_line :: "string \<Rightarrow> string" where
  "version_line prog = prog @ '': v'' @ version_number @ '' by '' @ author"

definition version_action :: "string \<Rightarrow> parse_result" where
  "version_action prog = SystemExit (print (version_line prog)) 0"

definition usage_error :: parse_result where
  "usage_error = SystemExit [] 2"

text \<open>The namespace of a command line that gives only \<open>--host\<close>.\<close>

definition default_args :: "string \<Rightarrow> args" where
  "default_args host =
     \<lparr>ALWAYS_OK = False, HOST_IP = host, HOST_PORT = DEFAULT_PORT,
      CRIT = DEFAULT_CRIT, WARN = DEFAULT_WARN\<rparr>"

subsection \<open>The fetch\<close>

text \<open>
  The HTTP exchange and the decoding of the body, as the network answers for a URL:
  an exception, or the decoded body.
\<close>

type_synonym network = "string \<Rightarrow> exn + decoded"

definition run_monitor_check :: "network \<Rightarrow> string \<Rightarrow> string + decoded" where
  "run_monitor_check net path =
     (case net path of
        Inl ex \<Rightarrow> Inl (exception_message ex)
      | Inr json_str \<Rightarrow> Inr json_str)"

subsection \<open>The extractions\<close>

definition get_sec_last_status :: "datetime \<Rightarrow> decoded \<Rightarrow> string + int" where
  "get_sec_last_status now data =
     (case do {
        v \<leftarrow> subscript data ''feed_last_ac_sent_time'';
        datetimeunix \<leftarrow> py_int v;
        lastsentTime \<leftarrow> utcfromtimestamp datetimeunix;
        Some (days (timedelta_abs (datetime_sub now lastsentTime)) * 24 * 60 * 60
              + seconds (timedelta_abs (datetime_sub now lastsentTime)))
      } of
        Some diffInSecs \<Rightarrow> Inr diffInSecs
      | None \<Rightarrow> Inl ''ValueError: Last Status could not be parsed'')"

record metrics =
  adsb_tracked :: jval
  non_adsb_tracked :: jval
  sum_tracked :: jval

definition get_metrics :: "decoded \<Rightarrow> string + metrics" where
  "get_metrics data =
     (case do {
        a \<leftarrow> subscript data ''feed_num_ac_adsb_tracked'';
        n \<leftarrow> subscript data ''feed_num_ac_non_adsb_tracked'';
        s \<leftarrow> subscript data ''feed_num_ac_tracked'';
        Some \<lparr>adsb_tracked = a, non_adsb_tracked = n, sum_tracked = s\<rparr>
      } of
        Some m \<Rightarrow> Inr m
      | None \<Rightarrow> Inl ''ValueError: Metrics could not be parsed'')"

record status =
  feed_status :: jval
  last_rx_connect_status :: jval
  feed_last_connected_time :: string

definition get_status :: "decoded \<Rightarrow> string + status" where
  "get_status data =
     (case do {
        f \<leftarrow> subscript data ''feed_status'';
        r \<leftarrow> subscript data ''last_rx_connect_status'';
        v \<leftarrow> subscript data ''feed_last_connected_time'';
        t \<leftarrow> py_int v;
        dt \<leftarrow> utcfromtimestamp t;
        Some \<lparr>feed_status = f, last_rx_connect_status = r,
              feed_last_connected_time = strftime dt\<rparr>
      } of
        Some st \<Rightarrow> Inr st
      | None \<Rightarrow> Inl ''ValueError: Status could not be parsed'')"

subsection \<open>The main function\<close>

text \<open>
  \<open>main_path\<close> is the URL, \<open>main_perfdata\<close> the performance data and
  \<open>main_thresholds\<close> the threshold block of \<open>main\<close> (the \<open>try\<close> statement that sets \<open>msg\<close> and
  \<open>state\<close>). Thresholds and elapsed seconds are integers, so the comparisons cannot
  raise; the concatenation in the last branch raises \<open>TypeError\<close> when \<open>feed_status\<close> is
  not a string, and the handler then replaces message and state.
\<close>

definition main_thresholds :: "args \<Rightarrow> int \<Rightarrow> status \<Rightarrow> string \<times> nat" where
  "main_thresholds a diffSecs st =
     (if diffSecs > CRIT a then ([] @ ''CRIT threshold reached: '' @ str_int diffSecs, STATE_CRIT)
      else if diffSecs > WARN a then ([] @ ''WARN threshold reached: '' @ str_int diffSecs, STATE_WARN)
      else (case py_add_str (feed_status st) '' since '' of
              Inl ex \<Rightarrow> (exception_message ex, STATE_UNKNOWN)
            | Inr s \<Rightarrow>
                (''Feeder: OK - '' @ str_int diffSecs @ ''s since last upload''
                 @ [newline] @ ''Status: '' @ (s @ feed_last_connected_time st), STATE_OK)))"

definition main_path :: "args \<Rightarrow> string" where
  "main_path a = ''http://'' @ HOST_IP a @ '':'' @ HOST_PORT a @ ''/monitor.json''"

definition main_perfdata :: "metrics \<Rightarrow> string" where
  "main_perfdata m =
     [] @ get_perfdata ''adsb_tracked'' (adsb_tracked m) None None None (Some 0) None
     @ get_perfdata ''non_adsb_tracked'' (non_adsb_tracked m) None None None (Some 0) None
     @ get_perfdata ''sum_tracked'' (sum_tracked m) None None None (Some 0) None"

text \<open>
  \<open>main\<close>. Every \<open>SystemExit\<close> of the parser is caught and turned into an exit with
  \<open>STATE_UNKNOWN\<close>; what the parser had printed stays printed. \<open>oao\<close> is called without
  its \<open>always_ok\<close> argument, which therefore has its default \<open>False\<close>. Host and port
  are strings, \<open>format\<close> accepts every value and the thresholds are integers, so no
  exception leaves \<open>main\<close> and the handler around its call in the script is not entered.
\<close>

definition main :: "parse_result \<Rightarrow> network \<Rightarrow> datetime \<Rightarrow> process" where
  "main cli net now =
     (case cli of
        SystemExit printed code \<Rightarrow> (printed, STATE_UNKNOWN)
      | Namespace a \<Rightarrow>
          (case coe (run_monitor_check net (main_path a)) STATE_UNKNOWN of
             Inl p \<Rightarrow> p
           | Inr response \<Rightarrow>
          (case coe (get_sec_last_status now response) STATE_UNKNOWN of
             Inl p \<Rightarrow> p
           | Inr diffSecs \<Rightarrow>
          (case coe (get_metrics response) STATE_UNKNOWN of
             Inl p \<Rightarrow> p
           | Inr m \<Rightarrow>
          (case coe (get_status response) STATE_UNKNOWN of
             Inl p \<Rightarrow> p
           | Inr st \<Rightarrow>
          (case main_thresholds a diffSecs st of
             (msg, state) \<Rightarrow> oao msg state (main_perfdata m) False))))))"

section \<open>Example responses\<close>

text \<open>
  A clock reading, 2022-03-17 12:01:40.25 UTC, and the response of a feeder whose last
  aircraft message is \<open>age\<close> seconds old at that moment; \<open>fs\<close> is the value of
  \<open>feed_status\<close>. The last connection was made at 11:53:20.
\<close>

definition example_now :: datetime where
  "example_now = 1647518500250000"

definition example_fields :: "int \<Rightarrow> jval \<Rightarrow> (string \<times> jval) list" where
  "example_fields age fs =
     [(''feed_last_ac_sent_time'', JInt (1647518500 - age)),
      (''feed_num_ac_adsb_tracked'', JInt 5),
      (''feed_num_ac_non_adsb_tracked'', JInt 2),
      (''feed_num_ac_tracked'', JInt 7),
      (''feed_status'', fs),
      (''last_rx_connect_status'', JStr ''CONNECTED''),
      (''feed_last_connected_time'', JInt 1647518000)]"

definition example_response :: "int \<Rightarrow> jval \<Rightarrow> decoded" where
  "example_response age fs = Mapping (map_of (example_fields age fs))"

text \<open>The same response without the fields whose names are in \<open>ks\<close>.\<close>

definition example_without :: "string list \<Rightarrow> int \<Rightarrow> jval \<Rightarrow> decoded" where
  "example_without ks age fs =
     Mapping (map_of (filter (\<lambda>(k, v). k \<notin> set ks) (example_fields age fs)))"

text \<open>
  A response whose numeric fields hold text or null, and which has no
  \<open>last_rx_connect_status\<close>.
\<close>

definition broken_fields :: "(string \<times> jval) list" where
  "broken_fields =
     [(''feed_last_ac_sent_time'', JStr ''yesterday''),
      (''feed_num_ac_adsb_tracked'', JStr ''five''),
      (''feed_num_ac_non_adsb_tracked'', JNull),
      (''feed_num_ac_tracked'', JStr ''abc''),
      (''feed_status'', JStr ''CONNECTED''),
      (''feed_last_connected_time'', JStr ''2022-03-17 11:53:20'')]"

text \<open>A network that answers every request with \<open>data\<close>, and one that fails with \<open>ex\<close>.\<close>

definition answering :: "decoded \<Rightarrow> network" where
  "answering data url = Inr data"

definition failing :: "exn \<Rightarrow> network" where
  "failing ex url = Inl ex"

section \<open>Auxiliary facts\<close>

subsection \<open>Text\<close>

lemma coe_Inl [simp]: "coe (Inl reason) state = Inl (print reason, state)"
  by (simp add: coe_def)

lemma coe_Inr [simp]: "coe (Inr v) state = Inr v"
  by (simp add: coe_def)

lemma strip_id:
  assumes "s \<noteq> []" and "\<not> py_isspace (hd s)" and "\<not> py_isspace (last s)"
  shows "strip s = s"
proof -
  have "dropWhile py_isspace (rev s) = rev s"
    using assms by (simp add: dropWhile_eq_self_iff hd_rev)
  moreover have "dropWhile py_isspace s = s"
    using assms by (simp add: dropWhile_eq_self_iff)
  ultimately show ?thesis
    by (simp add: strip_def)
qed

lemma py_isspace_space: "py_isspace CHR '' ''"
  by (simp add: py_isspace_def)

lemma strip_trailing_space:
  assumes "s \<noteq> []" and "\<not> py_isspace (hd s)" and "\<not> py_isspace (last s)"
  shows "strip (s @ '' '') = s"
proof -
  have "dropWhile py_isspace (rev (s @ '' '')) = dropWhile py_isspace (rev s)"
    by (simp add: py_isspace_space)
  also have "\<dots> = rev s"
    using assms by (simp add: dropWhile_eq_self_iff hd_rev)
  finally have "strip (s @ '' '') = dropWhile py_isspace s"
    by (simp add: strip_def)
  then show ?thesis
    using assms by (simp add: dropWhile_eq_self_iff)
qed

lemma digit_char_not_space: "0 \<le> d \<Longrightarrow> d < 10 \<Longrightarrow> \<not> py_isspace (digit_char d)"
proof -
  assume "0 \<le> d" "d < 10"
  then have "d = 0 \<or> d = 1 \<or> d = 2 \<or> d = 3 \<or> d = 4 \<or> d = 5 \<or> d = 6 \<or> d = 7 \<or> d = 8 \<or> d = 9"
    by arith
  then show ?thesis
    by (auto simp: digit_char_def py_isspace_def)
qed

lemma digit_char_neg: "d < 0 \<Longrightarrow> digit_char d = CHR ''0''"
  by (simp add: digit_char_def)

lemma zero_char_not_space: "\<not> py_isspace CHR ''0''"
  by (simp add: py_isspace_def)

lemma minus_char_not_space: "\<not> py_isspace CHR ''-''"
  by (simp add: py_isspace_def)

lemma digit_char_not_space': "d < 10 \<Longrightarrow> \<not> py_isspace (digit_char d)"
  by (cases "0 \<le> d") (simp_all add: digit_char_not_space digit_char_neg zero_char_not_space)

lemma str_digits_nonempty: "str_digits n \<noteq> []"
  by (subst str_digits.simps) simp

lemma last_str_digits: "\<not> py_isspace (last (str_digits n))"
proof (cases "n < 10")
  case True
  then show ?thesis
    by (subst str_digits.simps) (simp add: digit_char_not_space')
next
  case False
  have "n mod 10 < 10" by simp
  with False show ?thesis
    by (subst str_digits.simps) (simp add: digit_char_not_space')
qed

lemma hd_str_digits: "\<not> py_isspace (hd (str_digits n))"
proof (induction n rule: str_digits.induct)
  case (1 n)
  show ?case
  proof (cases "n < 10")
    case True
    then show ?thesis
      by (subst str_digits.simps) (simp add: digit_char_not_space')
  next
    case False
    with 1 show ?thesis
      by (subst str_digits.simps) (simp add: str_digits_nonempty)
  qed
qed

lemma str_int_nonempty: "str_int i \<noteq> []"
  by (simp add: str_int_def str_digits_nonempty)

lemma last_str_int: "\<not> py_isspace (last (str_int i))"
  by (simp add: str_int_def str_digits_nonempty last_str_digits)

lemma hd_str_int: "\<not> py_isspace (hd (str_int i))"
  by (simp add: str_int_def hd_str_digits minus_char_not_space)

lemma last_pad2: "pad2 n \<noteq> [] \<and> \<not> py_isspace (last (pad2 n))"
  by (simp add: pad2_def str_int_nonempty last_str_int)

lemma last_strftime: "strftime dt \<noteq> [] \<and> \<not> py_isspace (last (strftime dt))"
  by (simp add: strftime_def Let_def last_pad2 split: prod.split)

subsection \<open>Time differences\<close>

lemma us_of_timedelta_of_us: "us_of_timedelta (timedelta_of_us x) = x"
proof -
  define q where "q = x div 86400000000"
  define r where "r = x mod 86400000000"
  define s where "s = r div 1000000"
  define u where "u = x mod 1000000"
  have "r mod 1000000 = u"
    unfolding r_def u_def by (rule mod_mod_cancel) simp
  then have inner: "s * 1000000 + u = r"
    unfolding s_def using div_mult_mod_eq [of r 1000000] by simp
  have outer: "q * 86400000000 + r = x"
    unfolding q_def r_def by (rule div_mult_mod_eq)
  have "us_of_timedelta (timedelta_of_us x) = (q * 86400 + s) * 1000000 + u"
    by (simp add: us_of_timedelta_def timedelta_of_us_def q_def r_def s_def u_def)
  also have "\<dots> = q * 86400000000 + (s * 1000000 + u)"
    by (simp add: algebra_simps)
  also have "\<dots> = x"
    by (simp only: inner outer)
  finally show ?thesis .
qed

lemma whole_seconds:
  "days (timedelta_of_us x) * 24 * 60 * 60 + seconds (timedelta_of_us x) = x div 1000000"
proof -
  have "x div 1000000 = (x div 86400000000 * 86400 * 1000000 + x mod 86400000000) div 1000000"
    using div_mult_mod_eq [of x 86400000000] by simp
  also have "\<dots> = x div 86400000000 * 86400 + (x mod 86400000000) div 1000000"
    by (simp only: div_mult_self3)
  finally show ?thesis
    by (simp add: timedelta_of_us_def)
qed

lemma days_sign: "days (timedelta_of_us x) < 0 \<longleftrightarrow> x < 0"
  by (simp add: timedelta_of_us_def pos_imp_zdiv_neg_iff)

lemma timedelta_abs_of_us: "timedelta_abs (timedelta_of_us x) = timedelta_of_us \<bar>x\<bar>"
  by (simp add: timedelta_abs_def timedelta_neg_def us_of_timedelta_of_us days_sign abs_if)

lemma elapsed_seconds:
  "days (timedelta_abs (datetime_sub a b)) * 24 * 60 * 60
     + seconds (timedelta_abs (datetime_sub a b)) = \<bar>a - b\<bar> div 1000000"
  by (simp only: datetime_sub_def timedelta_abs_of_us whole_seconds)

lemma elapsed_seconds_normal:
  "86400 * days (timedelta_abs (datetime_sub a b)) + seconds (timedelta_abs (datetime_sub a b))
     = \<bar>a - b\<bar> div 1000000"
  using elapsed_seconds [of a b] by simp

subsection \<open>The extractions\<close>

lemma get_sec_last_status_missing:
  "subscript data ''feed_last_ac_sent_time'' = None \<Longrightarrow>
   get_sec_last_status now data = Inl ''ValueError: Last Status could not be parsed''"
  by (simp add: get_sec_last_status_def)

lemma get_sec_last_status_not_int:
  "subscript data ''feed_last_ac_sent_time'' = Some v \<Longrightarrow> py_int v = None \<Longrightarrow>
   get_sec_last_status now data = Inl ''ValueError: Last Status could not be parsed''"
  by (simp add: get_sec_last_status_def)

lemma get_sec_last_status_out_of_range:
  "subscript data ''feed_last_ac_sent_time'' = Some v \<Longrightarrow> py_int v = Some t \<Longrightarrow>
   t < MIN_TIMESTAMP \<or> MAX_TIMESTAMP < t \<Longrightarrow>
   get_sec_last_status now data = Inl ''ValueError: Last Status could not be parsed''"
  by (auto simp add: get_sec_last_status_def utcfromtimestamp_def)

lemma get_sec_last_status_in_range:
  "subscript data ''feed_last_ac_sent_time'' = Some v \<Longrightarrow> py_int v = Some t \<Longrightarrow>
   MIN_TIMESTAMP \<le> t \<Longrightarrow> t \<le> MAX_TIMESTAMP \<Longrightarrow>
   get_sec_last_status now data = Inr (\<bar>now - t * 1000000\<bar> div 1000000)"
  by (simp add: get_sec_last_status_def utcfromtimestamp_def elapsed_seconds_normal)

lemma get_sec_last_status_Inl:
  "get_sec_last_status now data = Inl d \<Longrightarrow> d = ''ValueError: Last Status could not be parsed''"
  by (auto simp add: get_sec_last_status_def split: option.splits)

lemma get_sec_last_status_nonneg:
  "get_sec_last_status now data = Inr e \<Longrightarrow> 0 \<le> e"
  by (auto simp add: get_sec_last_status_def elapsed_seconds_normal split: option.splits Option.bind_splits)

lemma get_metrics_present:
  "subscript data ''feed_num_ac_adsb_tracked'' = Some x \<Longrightarrow>
   subscript data ''feed_num_ac_non_adsb_tracked'' = Some y \<Longrightarrow>
   subscript data ''feed_num_ac_tracked'' = Some z \<Longrightarrow>
   get_metrics data = Inr \<lparr>adsb_tracked = x, non_adsb_tracked = y, sum_tracked = z\<rparr>"
  by (simp add: get_metrics_def)

lemma get_metrics_missing:
  "subscript data ''feed_num_ac_adsb_tracked'' = None
   \<or> subscript data ''feed_num_ac_non_adsb_tracked'' = None
   \<or> subscript data ''feed_num_ac_tracked'' = None \<Longrightarrow>
   get_metrics data = Inl ''ValueError: Metrics could not be parsed''"
  by (auto simp add: get_metrics_def split: Option.bind_splits)

lemma get_metrics_Inl:
  "get_metrics data = Inl d \<Longrightarrow> d = ''ValueError: Metrics could not be parsed''"
  by (auto simp add: get_metrics_def split: option.splits)

lemma get_metrics_Inr:
  "get_metrics data = Inr m \<Longrightarrow>
   subscript data ''feed_num_ac_adsb_tracked'' = Some (adsb_tracked m)
   \<and> subscript data ''feed_num_ac_non_adsb_tracked'' = Some (non_adsb_tracked m)
   \<and> subscript data ''feed_num_ac_tracked'' = Some (sum_tracked m)"
  by (auto simp add: get_metrics_def split: option.splits Option.bind_splits)

lemma get_status_missing:
  "subscript data ''feed_status'' = None
   \<or> subscript data ''last_rx_connect_status'' = None
   \<or> subscript data ''feed_last_connected_time'' = None \<Longrightarrow>
   get_status data = Inl ''ValueError: Status could not be parsed''"
  by (auto simp add: get_status_def split: Option.bind_splits)

lemma get_status_not_int:
  "subscript data ''feed_last_connected_time'' = Some v \<Longrightarrow> py_int v = None \<Longrightarrow>
   get_status data = Inl ''ValueError: Status could not be parsed''"
  by (auto simp add: get_status_def split: Option.bind_splits)

lemma get_status_Inl:
  "get_status data = Inl d \<Longrightarrow> d = ''ValueError: Status could not be parsed''"
  by (auto simp add: get_status_def split: option.splits)

lemma get_status_Inr:
  "get_status data = Inr st \<Longrightarrow>
   subscript data ''feed_status'' = Some (feed_status st)
   \<and> (\<exists>dt. feed_last_connected_time st = strftime dt)"
  by (auto simp add: get_status_def split: option.splits Option.bind_splits)

subsection \<open>The stages of \<open>main\<close>\<close>

lemma main_SystemExit: "main (SystemExit printed code) net now = (printed, STATE_UNKNOWN)"
  by (simp add: main_def)

lemma main_fetch_failed:
  "net (main_path a) = Inl ex \<Longrightarrow>
   main (Namespace a) net now = (print (exception_message ex), STATE_UNKNOWN)"
  by (simp add: main_def run_monitor_check_def)

lemma main_freshness_failed:
  "net (main_path a) = Inr data \<Longrightarrow> get_sec_last_status now data = Inl d \<Longrightarrow>
   main (Namespace a) net now = (print d, STATE_UNKNOWN)"
  by (simp add: main_def run_monitor_check_def)

lemma main_metrics_failed:
  "net (main_path a) = Inr data \<Longrightarrow> get_sec_last_status now data = Inr e \<Longrightarrow>
   get_metrics data = Inl d \<Longrightarrow>
   main (Namespace a) net now = (print d, STATE_UNKNOWN)"
  by (simp add: main_def run_monitor_check_def)

lemma main_status_failed:
  "net (main_path a) = Inr data \<Longrightarrow> get_sec_last_status now data = Inr e \<Longrightarrow>
   get_metrics data = Inr m \<Longrightarrow> get_status data = Inl d \<Longrightarrow>
   main (Namespace a) net now = (print d, STATE_UNKNOWN)"
  by (simp add: main_def run_monitor_check_def)

lemma main_evaluated:
  "net (main_path a) = Inr data \<Longrightarrow> get_sec_last_status now data = Inr e \<Longrightarrow>
   get_metrics data = Inr m \<Longrightarrow> get_status data = Inr st \<Longrightarrow>
   main (Namespace a) net now =
     oao (fst (main_thresholds a e st)) (snd (main_thresholds a e st)) (main_perfdata m) False"
  by (simp add: main_def run_monitor_check_def split: prod.split)

lemma main_thresholds_ignores_ALWAYS_OK:
  "main_thresholds (a\<lparr>ALWAYS_OK := b\<rparr>) e st = main_thresholds a e st"
  by (simp add: main_thresholds_def)

lemma main_ignores_ALWAYS_OK:
  "main (Namespace (a\<lparr>ALWAYS_OK := b\<rparr>)) net now = main (Namespace a) net now"
  by (simp add: main_def main_path_def main_thresholds_ignores_ALWAYS_OK split: sum.splits)

subsection \<open>Output\<close>

lemma str_int_0: "str_int 0 = ''0''"
  by (simp add: str_int_def str_digits.simps digit_char_def)

lemma get_perfdata_floor:
  "get_perfdata label v None None None (Some 0) None
     = [squote] @ label @ [squote] @ ''='' @ py_format v @ '';;;0; ''"
  by (simp add: get_perfdata_def str_int_0)

lemma squote_not_space: "\<not> py_isspace squote"
  by (simp add: py_isspace_def squote_def)

lemma semicolon_not_space: "\<not> py_isspace CHR '';''"
  by (simp add: py_isspace_def)

lemma strip_perfdata:
  "strip (([squote] @ p) @ '';;;0; '') = ([squote] @ p) @ '';;;0;''"
proof -
  have "strip ((([squote] @ p) @ '';;;0;'') @ '' '') = ([squote] @ p) @ '';;;0;''"
    by (rule strip_trailing_space) (simp_all add: squote_not_space semicolon_not_space)
  then show ?thesis by simp
qed

lemma main_perfdata_nonempty: "main_perfdata m \<noteq> []"
  by (simp add: main_perfdata_def get_perfdata_def)

lemma oao_perfdata:
  "perfdata \<noteq> [] \<Longrightarrow> oao msg state perfdata False = (print (strip msg @ ''|'' @ strip perfdata), state)"
  by (simp add: oao_def)

lemma main_output:
  assumes "net (main_path a) = Inr data" and "get_sec_last_status now data = Inr e"
    and "get_metrics data = Inr m" and "get_status data = Inr st"
  shows "main (Namespace a) net now =
    (print (strip (fst (main_thresholds a e st)) @ ''|'' @ strip (main_perfdata m)),
     snd (main_thresholds a e st))"
  using main_evaluated [where net = net and a = a and data = data and now = now and e = e
      and m = m and st = st] assms
  by (simp add: oao_perfdata main_perfdata_nonempty)

lemma letters_not_space:
  "\<not> py_isspace CHR ''C''" "\<not> py_isspace CHR ''W''" "\<not> py_isspace CHR ''F''"
  "\<not> py_isspace CHR ''A''" "\<not> py_isspace CHR '')''"
  by (simp_all add: py_isspace_def)

lemma strip_crit: "strip (''CRIT threshold reached: '' @ str_int e) = ''CRIT threshold reached: '' @ str_int e"
  by (rule strip_id) (simp_all add: str_int_nonempty last_str_int letters_not_space)

lemma strip_warn: "strip (''WARN threshold reached: '' @ str_int e) = ''WARN threshold reached: '' @ str_int e"
  by (rule strip_id) (simp_all add: str_int_nonempty last_str_int letters_not_space)

lemma strip_ok:
  "strip (''Feeder: OK - '' @ str_int e @ ''s since last upload'' @ [newline] @ ''Status: ''
          @ s @ '' since '' @ strftime dt)
   = ''Feeder: OK - '' @ str_int e @ ''s since last upload'' @ [newline] @ ''Status: ''
          @ s @ '' since '' @ strftime dt"
  by (rule strip_id) (simp_all add: last_strftime letters_not_space)

lemma strip_exception_message:
  "strip (exception_message (Exn name (args_repr @ '')''))) = exception_message (Exn name (args_repr @ '')''))"
  by (rule strip_id) (simp_all add: exception_message_def letters_not_space)

lemma main_thresholds_crit:
  "CRIT a < e \<Longrightarrow> main_thresholds a e st = (''CRIT threshold reached: '' @ str_int e, 2)"
  by (simp add: main_thresholds_def STATE_CRIT_def)

lemma main_thresholds_warn:
  "e \<le> CRIT a \<Longrightarrow> WARN a < e \<Longrightarrow>
   main_thresholds a e st = (''WARN threshold reached: '' @ str_int e, 1)"
  by (simp add: main_thresholds_def STATE_WARN_def)

lemma main_thresholds_ok:
  "e \<le> CRIT a \<Longrightarrow> e \<le> WARN a \<Longrightarrow> feed_status st = JStr s \<Longrightarrow>
   main_thresholds a e st =
     (''Feeder: OK - '' @ str_int e @ ''s since last upload'' @ [newline] @ ''Status: ''
        @ s @ '' since '' @ feed_last_connected_time st, 0)"
  by (simp add: main_thresholds_def py_add_str_def STATE_OK_def)

lemma main_thresholds_unknown:
  "e \<le> CRIT a \<Longrightarrow> e \<le> WARN a \<Longrightarrow> type_name (feed_status st) \<noteq> ''str'' \<Longrightarrow>
   snd (main_thresholds a e st) = 3"
  by (cases "feed_status st") (simp_all add: main_thresholds_def py_add_str_def STATE_UNKNOWN_def)


lemma printed_crit:
  "CRIT a < e \<Longrightarrow>
   strip (fst (main_thresholds a e st)) = ''CRIT threshold reached: '' @ str_int e
   \<and> snd (main_thresholds a e st) = 2"
  by (simp only: main_thresholds_crit fst_conv snd_conv strip_crit)

lemma printed_warn:
  "e \<le> CRIT a \<Longrightarrow> WARN a < e \<Longrightarrow>
   strip (fst (main_thresholds a e st)) = ''WARN threshold reached: '' @ str_int e
   \<and> snd (main_thresholds a e st) = 1"
  by (simp only: main_thresholds_warn fst_conv snd_conv strip_warn)

lemma printed_ok:
  "e \<le> CRIT a \<Longrightarrow> e \<le> WARN a \<Longrightarrow> feed_status st = JStr s \<Longrightarrow>
   feed_last_connected_time st = strftime dt \<Longrightarrow>
   strip (fst (main_thresholds a e st)) =
     ''Feeder: OK - '' @ str_int e @ ''s since last upload'' @ [newline] @ ''Status: ''
        @ s @ '' since '' @ feed_last_connected_time st
   \<and> snd (main_thresholds a e st) = 0"
  by (simp only: main_thresholds_ok fst_conv snd_conv strip_ok)

lemma main_perfdata_fragments:
  "main_perfdata m =
     ([squote] @ ''adsb_tracked'' @ [squote] @ ''='' @ py_format (adsb_tracked m) @ '';;;0; '')
     @ ([squote] @ ''non_adsb_tracked'' @ [squote] @ ''='' @ py_format (non_adsb_tracked m) @ '';;;0; '')
     @ ([squote] @ ''sum_tracked'' @ [squote] @ ''='' @ py_format (sum_tracked m) @ '';;;0; '')"
  by (simp add: main_perfdata_def get_perfdata_floor)

lemma strip_three_fragments:
  "strip (([squote] @ p @ '';;;0; '') @ ([squote] @ q @ '';;;0; '') @ ([squote] @ r @ '';;;0; ''))
   = ([squote] @ p @ '';;;0; '') @ ([squote] @ q @ '';;;0; '') @ ([squote] @ r @ '';;;0;'')"
  using strip_perfdata [of "p @ '';;;0; '' @ [squote] @ q @ '';;;0; '' @ [squote] @ r"]
  by simp

section \<open>The thresholds\<close>

text \<open>
  Claim C1, as amended. For a run that reaches the threshold block with \<open>e\<close> elapsed
  seconds: if \<open>e\<close> exceeds the critical threshold the exit status is 2 and the line starts
  with \<open>CRIT threshold reached: e\<close>; otherwise, if \<open>e\<close> exceeds the warning threshold,
  the exit status is 1 and the line starts with \<open>WARN threshold reached: e\<close>; otherwise
  the exit status is 0 when \<open>feed_status\<close> is a string, and 3 when it is not. Both
  comparisons are strict, and the critical one comes first.
\<close>

theorem threshold_verdicts:
  assumes "net (main_path a) = Inr data"
    and "get_sec_last_status now data = Inr e"
    and "get_metrics data = Inr m"
    and "get_status data = Inr st"
  shows "(CRIT a < e \<longrightarrow>
            exit_status (main (Namespace a) net now) = 2
            \<and> stdout (main (Namespace a) net now)
                = print (''CRIT threshold reached: '' @ str_int e @ ''|'' @ strip (main_perfdata m)))
    \<and> (e \<le> CRIT a \<and> WARN a < e \<longrightarrow>
            exit_status (main (Namespace a) net now) = 1
            \<and> stdout (main (Namespace a) net now)
                = print (''WARN threshold reached: '' @ str_int e @ ''|'' @ strip (main_perfdata m)))
    \<and> (e \<le> CRIT a \<and> e \<le> WARN a \<and> type_name (feed_status st) = ''str'' \<longrightarrow>
            exit_status (main (Namespace a) net now) = 0)
    \<and> (e \<le> CRIT a \<and> e \<le> WARN a \<and> type_name (feed_status st) \<noteq> ''str'' \<longrightarrow>
            exit_status (main (Namespace a) net now) = 3)"
proof -
  note run = main_output [where net = net and a = a, OF assms]
  have crit: "CRIT a < e \<longrightarrow>
      exit_status (main (Namespace a) net now) = 2
      \<and> stdout (main (Namespace a) net now)
          = print (''CRIT threshold reached: '' @ str_int e @ ''|'' @ strip (main_perfdata m))"
    using run printed_crit [of a e st] by simp
  have warn: "e \<le> CRIT a \<and> WARN a < e \<longrightarrow>
      exit_status (main (Namespace a) net now) = 1
      \<and> stdout (main (Namespace a) net now)
          = print (''WARN threshold reached: '' @ str_int e @ ''|'' @ strip (main_perfdata m))"
    using run printed_warn [of e a st] by simp
  have ok: "e \<le> CRIT a \<and> e \<le> WARN a \<and> type_name (feed_status st) = ''str'' \<longrightarrow>
      exit_status (main (Namespace a) net now) = 0"
    using run by (cases "feed_status st") (simp_all add: main_thresholds_ok)
  have unknown: "e \<le> CRIT a \<and> e \<le> WARN a \<and> type_name (feed_status st) \<noteq> ''str'' \<longrightarrow>
      exit_status (main (Namespace a) net now) = 3"
    using run by (simp add: main_thresholds_unknown)
  from crit warn ok unknown show ?thesis
    by (intro conjI)
qed

text \<open>
  The boundaries under the default thresholds 600 and 3600: 3601 seconds are critical,
  3600 and 601 seconds are a warning, 600 seconds are healthy, and 600 seconds with a
  null \<open>feed_status\<close> are unknown.
\<close>

theorem threshold_verdicts_witness:
  "exit_status (main (Namespace (default_args ''192.0.2.1''))
       (answering (example_response 3601 (JStr ''CONNECTED''))) example_now) = 2
   \<and> exit_status (main (Namespace (default_args ''192.0.2.1''))
       (answering (example_response 3600 (JStr ''CONNECTED''))) example_now) = 1
   \<and> exit_status (main (Namespace (default_args ''192.0.2.1''))
       (answering (example_response 601 (JStr ''CONNECTED''))) example_now) = 1
   \<and> exit_status (main (Namespace (default_args ''192.0.2.1''))
       (answering (example_response 600 (JStr ''CONNECTED''))) example_now) = 0
   \<and> exit_status (main (Namespace (default_args ''192.0.2.1''))
       (answering (example_response 600 JNull)) example_now) = 3"
proof -
  let ?a = "default_args ''192.0.2.1''"
  let ?m = "\<lparr>adsb_tracked = JInt 5, non_adsb_tracked = JInt 2, sum_tracked = JInt 7\<rparr>"
  let ?st = "\<lparr>feed_status = JStr ''CONNECTED'', last_rx_connect_status = JStr ''CONNECTED'',
             feed_last_connected_time = ''2022-03-17 11:53:20''\<rparr>"
  let ?null = "\<lparr>feed_status = JNull, last_rx_connect_status = JStr ''CONNECTED'',
             feed_last_connected_time = ''2022-03-17 11:53:20''\<rparr>"
  have thresholds: "CRIT ?a = 3600" "WARN ?a = 600"
    by (simp_all add: default_args_def DEFAULT_CRIT_def DEFAULT_WARN_def)
  have net: "answering data (main_path ?a) = Inr data" for data
    by (simp add: answering_def)
  have "get_sec_last_status example_now (example_response 3601 (JStr ''CONNECTED'')) = Inr 3601"
    and "get_metrics (example_response 3601 (JStr ''CONNECTED'')) = Inr ?m"
    and "get_status (example_response 3601 (JStr ''CONNECTED'')) = Inr ?st"
    by code_simp+
  with threshold_verdicts
    [where net = "answering (example_response 3601 (JStr ''CONNECTED''))" and a = ?a
       and data = "example_response 3601 (JStr ''CONNECTED'')" and now = example_now
       and e = 3601 and m = ?m and st = ?st]
  have one: "exit_status (main (Namespace ?a)
       (answering (example_response 3601 (JStr ''CONNECTED''))) example_now) = 2"
    using net by (simp add: thresholds)
  have "get_sec_last_status example_now (example_response 3600 (JStr ''CONNECTED'')) = Inr 3600"
    and "get_metrics (example_response 3600 (JStr ''CONNECTED'')) = Inr ?m"
    and "get_status (example_response 3600 (JStr ''CONNECTED'')) = Inr ?st"
    by code_simp+
  with threshold_verdicts
    [where net = "answering (example_response 3600 (JStr ''CONNECTED''))" and a = ?a
       and data = "example_response 3600 (JStr ''CONNECTED'')" and now = example_now
       and e = 3600 and m = ?m and st = ?st]
  have two: "exit_status (main (Namespace ?a)
       (answering (example_response 3600 (JStr ''CONNECTED''))) example_now) = 1"
    using net by (simp add: thresholds)
  have "get_sec_last_status example_now (example_response 601 (JStr ''CONNECTED'')) = Inr 601"
    and "get_metrics (example_response 601 (JStr ''CONNECTED'')) = Inr ?m"
    and "get_status (example_response 601 (JStr ''CONNECTED'')) = Inr ?st"
    by code_simp+
  with threshold_verdicts
    [where net = "answering (example_response 601 (JStr ''CONNECTED''))" and a = ?a
       and data = "example_response 601 (JStr ''CONNECTED'')" and now = example_now
       and e = 601 and m = ?m and st = ?st]
  have three: "exit_status (main (Namespace ?a)
       (answering (example_response 601 (JStr ''CONNECTED''))) example_now) = 1"
    using net by (simp add: thresholds)
  have "get_sec_last_status example_now (example_response 600 (JStr ''CONNECTED'')) = Inr 600"
    and "get_metrics (example_response 600 (JStr ''CONNECTED'')) = Inr ?m"
    and "get_status (example_response 600 (JStr ''CONNECTED'')) = Inr ?st"
    by code_simp+
  with threshold_verdicts
    [where net = "answering (example_response 600 (JStr ''CONNECTED''))" and a = ?a
       and data = "example_response 600 (JStr ''CONNECTED'')" and now = example_now
       and e = 600 and m = ?m and st = ?st]
  have four: "exit_status (main (Namespace ?a)
       (answering (example_response 600 (JStr ''CONNECTED''))) example_now) = 0"
    using net by (simp add: thresholds)
  have "get_sec_last_status example_now (example_response 600 JNull) = Inr 600"
    and "get_metrics (example_response 600 JNull) = Inr ?m"
    and "get_status (example_response 600 JNull) = Inr ?null"
    by code_simp+
  with threshold_verdicts
    [where net = "answering (example_response 600 JNull)" and a = ?a
       and data = "example_response 600 JNull" and now = example_now
       and e = 600 and m = ?m and st = ?null]
  have five: "exit_status (main (Namespace ?a)
       (answering (example_response 600 JNull)) example_now) = 3"
    using net by (simp add: thresholds)
  from one two three four five show ?thesis
    by simp
qed

text \<open>
  Without the condition on \<open>feed_status\<close> the last case fails: with the number 5 as
  \<open>feed_status\<close> and 100 elapsed seconds, below both thresholds, the concatenation in the
  healthy branch raises, the handler reports the exception, and the exit status is 3.
\<close>

theorem healthy_needs_status_text_counterexample:
  "get_sec_last_status example_now (example_response 100 (JInt 5)) = Inr 100
   \<and> 100 \<le> WARN (default_args ''192.0.2.1'')
   \<and> 100 \<le> CRIT (default_args ''192.0.2.1'')
   \<and> main (Namespace (default_args ''192.0.2.1'')) (answering (example_response 100 (JInt 5)))
       example_now
     = (print (''An exception of type TypeError occurred. Arguments:'' @ [newline]
          @ ''('' @ [dquote] @ ''unsupported operand type(s) for +: ''
          @ [squote] @ ''int'' @ [squote] @ '' and '' @ [squote] @ ''str'' @ [squote]
          @ [dquote] @ '',)|''
          @ [squote] @ ''adsb_tracked'' @ [squote] @ ''=5;;;0; ''
          @ [squote] @ ''non_adsb_tracked'' @ [squote] @ ''=2;;;0; ''
          @ [squote] @ ''sum_tracked'' @ [squote] @ ''=7;;;0;''), 3)"
  by code_simp

section \<open>The always-ok flag\<close>

text \<open>
  Claim C2 says that \<open>--always-ok\<close> forces exit status 0. \<open>main\<close> never hands
  \<open>ALWAYS_OK\<close> to \<open>oao\<close>: with the flag set and a last message 4000 seconds old, the
  exit status is 2.
\<close>

theorem always_ok_not_passed:
  "exit_status (main (Namespace ((default_args ''192.0.2.1'')\<lparr>ALWAYS_OK := True\<rparr>))
     (answering (example_response 4000 (JStr ''CONNECTED''))) example_now) = 2
   \<and> ALWAYS_OK ((default_args ''192.0.2.1'')\<lparr>ALWAYS_OK := True\<rparr>)"
  by code_simp

section \<open>Failures before the thresholds\<close>

text \<open>
  Claim C3. \<open>main\<close> runs the fetch, the freshness extraction, the metrics extraction and
  the status extraction in this order. The first of them that fails decides the whole run:
  standard output is exactly its diagnostic line and the exit status is 3. Nothing of the
  later steps and no performance data is printed, whatever the later steps would have
  returned. The diagnostics of the three extractions are fixed strings.
\<close>

theorem first_failure_aborts:
  "(net (main_path a) = Inl ex \<longrightarrow>
      main (Namespace a) net now = (print (exception_message ex), 3))
   \<and> (net (main_path a) = Inr data \<and> get_sec_last_status now data = Inl d \<longrightarrow>
      d = ''ValueError: Last Status could not be parsed''
      \<and> main (Namespace a) net now = (print d, 3))
   \<and> (net (main_path a) = Inr data \<and> get_sec_last_status now data = Inr e
        \<and> get_metrics data = Inl d \<longrightarrow>
      d = ''ValueError: Metrics could not be parsed''
      \<and> main (Namespace a) net now = (print d, 3))
   \<and> (net (main_path a) = Inr data \<and> get_sec_last_status now data = Inr e
        \<and> get_metrics data = Inr m \<and> get_status data = Inl d \<longrightarrow>
      d = ''ValueError: Status could not be parsed''
      \<and> main (Namespace a) net now = (print d, 3))"
proof (intro conjI impI)
  assume "net (main_path a) = Inl ex"
  then show "main (Namespace a) net now = (print (exception_message ex), 3)"
    by (simp add: main_fetch_failed STATE_UNKNOWN_def)
next
  assume h: "net (main_path a) = Inr data \<and> get_sec_last_status now data = Inl d"
  then show "d = ''ValueError: Last Status could not be parsed''"
    using get_sec_last_status_Inl by blast
  from h show "main (Namespace a) net now = (print d, 3)"
    by (simp add: main_freshness_failed STATE_UNKNOWN_def)
next
  assume h: "net (main_path a) = Inr data \<and> get_sec_last_status now data = Inr e
    \<and> get_metrics data = Inl d"
  then show "d = ''ValueError: Metrics could not be parsed''"
    using get_metrics_Inl by blast
  from h show "main (Namespace a) net now = (print d, 3)"
    by (simp add: main_metrics_failed STATE_UNKNOWN_def)
next
  assume h: "net (main_path a) = Inr data \<and> get_sec_last_status now data = Inr e
    \<and> get_metrics data = Inr m \<and> get_status data = Inl d"
  then show "d = ''ValueError: Status could not be parsed''"
    using get_status_Inl by blast
  from h show "main (Namespace a) net now = (print d, 3)"
    by (simp add: main_status_failed STATE_UNKNOWN_def)
qed

text \<open>
  One run for each step: a refused connection, and responses that lack one field each.
  In the last run freshness and metrics are valid and only the status block is incomplete.
\<close>

theorem first_failure_aborts_witness:
  "main (Namespace (default_args ''192.0.2.1'')) (failing (Exn ''ConnectionError'' ''()'')) example_now
     = (print (exception_message (Exn ''ConnectionError'' ''()'')), 3)
   \<and> main (Namespace (default_args ''192.0.2.1''))
       (answering (example_without [''feed_last_ac_sent_time''] 100 (JStr ''CONNECTED''))) example_now
     = (print ''ValueError: Last Status could not be parsed'', 3)
   \<and> main (Namespace (default_args ''192.0.2.1''))
       (answering (example_without [''feed_num_ac_tracked''] 100 (JStr ''CONNECTED''))) example_now
     = (print ''ValueError: Metrics could not be parsed'', 3)
   \<and> main (Namespace (default_args ''192.0.2.1''))
       (answering (example_without [''feed_status''] 100 (JStr ''CONNECTED''))) example_now
     = (print ''ValueError: Status could not be parsed'', 3)"
proof (intro conjI)
  let ?a = "default_args ''192.0.2.1''"
  let ?ex = "Exn ''ConnectionError'' ''()''"
  have "failing ?ex (main_path ?a) = Inl ?ex"
    by (simp add: failing_def)
  with first_failure_aborts [where net = "failing ?ex" and a = ?a and ex = ?ex and now = example_now]
  show "main (Namespace ?a) (failing ?ex) example_now = (print (exception_message ?ex), 3)"
    by blast
next
  let ?a = "default_args ''192.0.2.1''"
  let ?data = "example_without [''feed_last_ac_sent_time''] 100 (JStr ''CONNECTED'')"
  let ?d = "''ValueError: Last Status could not be parsed''"
  have "answering ?data (main_path ?a) = Inr ?data"
    by (simp add: answering_def)
  moreover have "get_sec_last_status example_now ?data = Inl ?d"
    by code_simp
  ultimately show "main (Namespace ?a) (answering ?data) example_now = (print ?d, 3)"
    using first_failure_aborts
      [where net = "answering ?data" and a = ?a and data = ?data and d = ?d and now = example_now]
    by blast
next
  let ?a = "default_args ''192.0.2.1''"
  let ?data = "example_without [''feed_num_ac_tracked''] 100 (JStr ''CONNECTED'')"
  let ?d = "''ValueError: Metrics could not be parsed''"
  have "answering ?data (main_path ?a) = Inr ?data"
    by (simp add: answering_def)
  moreover have "get_sec_last_status example_now ?data = Inr 100"
    by code_simp
  moreover have "get_metrics ?data = Inl ?d"
    by code_simp
  ultimately show "main (Namespace ?a) (answering ?data) example_now = (print ?d, 3)"
    using first_failure_aborts
      [where net = "answering ?data" and a = ?a and data = ?data and d = ?d and e = 100
         and now = example_now]
    by blast
next
  let ?a = "default_args ''192.0.2.1''"
  let ?data = "example_without [''feed_status''] 100 (JStr ''CONNECTED'')"
  let ?d = "''ValueError: Status could not be parsed''"
  let ?m = "\<lparr>adsb_tracked = JInt 5, non_adsb_tracked = JInt 2, sum_tracked = JInt 7\<rparr>"
  have "answering ?data (main_path ?a) = Inr ?data"
    by (simp add: answering_def)
  moreover have "get_sec_last_status example_now ?data = Inr 100"
    by code_simp
  moreover have "get_metrics ?data = Inr ?m"
    by code_simp
  moreover have "get_status ?data = Inl ?d"
    by code_simp
  ultimately show "main (Namespace ?a) (answering ?data) example_now = (print ?d, 3)"
    using first_failure_aborts
      [where net = "answering ?data" and a = ?a and data = ?data and d = ?d and e = 100
         and m = ?m and now = example_now]
    by blast
qed

section \<open>Freshness extraction\<close>

text \<open>
  Claim C4, as amended. When \<open>feed_last_ac_sent_time\<close> converts to an integer \<open>t\<close> that
  \<open>utcfromtimestamp\<close> accepts (a second of the years 1 to 9999), \<open>get_sec_last_status\<close>
  succeeds with the absolute difference between the clock reading and \<open>t\<close>, cut to whole
  seconds. The clock reading \<open>now\<close> is in microseconds, \<open>t\<close> in seconds. The result is
  never negative, whichever of the two is later.
\<close>

theorem freshness_is_absolute_difference:
  assumes "m ''feed_last_ac_sent_time'' = Some v"
    and "py_int v = Some t"
    and "MIN_TIMESTAMP \<le> t" and "t \<le> MAX_TIMESTAMP"
  shows "get_sec_last_status now (Mapping m) = Inr (\<bar>now - t * 1000000\<bar> div 1000000)
         \<and> 0 \<le> \<bar>now - t * 1000000\<bar> div 1000000"
  using assms by (simp add: get_sec_last_status_in_range)

text \<open>
  At the example clock reading, a message sent 100 seconds ago gives 100, and a message
  stamped 100 seconds ahead of the clock gives 99 (the clock reading has a quarter of a
  second, so the distance is 99.75 seconds).
\<close>

theorem freshness_is_absolute_difference_witness:
  "get_sec_last_status example_now (example_response 100 (JStr ''CONNECTED'')) = Inr 100
   \<and> get_sec_last_status example_now (example_response (- 100) (JStr ''CONNECTED'')) = Inr 99"
proof -
  have past: "map_of (example_fields 100 (JStr ''CONNECTED'')) ''feed_last_ac_sent_time''
                = Some (JInt 1647518400)"
    by (simp add: example_fields_def)
  have future: "map_of (example_fields (- 100) (JStr ''CONNECTED'')) ''feed_last_ac_sent_time''
                = Some (JInt 1647518600)"
    by (simp add: example_fields_def)
  have "py_int (JInt 1647518400) = Some 1647518400"
    and "MIN_TIMESTAMP \<le> 1647518400" and "1647518400 \<le> MAX_TIMESTAMP"
    by (simp_all add: MIN_TIMESTAMP_def MAX_TIMESTAMP_def)
  with past freshness_is_absolute_difference
    [where m = "map_of (example_fields 100 (JStr ''CONNECTED''))" and v = "JInt 1647518400"
       and t = 1647518400 and now = example_now]
  have one: "get_sec_last_status example_now (example_response 100 (JStr ''CONNECTED'')) = Inr 100"
    by (simp add: example_response_def example_now_def)
  have "py_int (JInt 1647518600) = Some 1647518600"
    and "MIN_TIMESTAMP \<le> 1647518600" and "1647518600 \<le> MAX_TIMESTAMP"
    by (simp_all add: MIN_TIMESTAMP_def MAX_TIMESTAMP_def)
  with future freshness_is_absolute_difference
    [where m = "map_of (example_fields (- 100) (JStr ''CONNECTED''))" and v = "JInt 1647518600"
       and t = 1647518600 and now = example_now]
  have two: "get_sec_last_status example_now (example_response (- 100) (JStr ''CONNECTED'')) = Inr 99"
    by (simp add: example_response_def example_now_def)
  from one two show ?thesis ..
qed

text \<open>
  Without the bound on \<open>t\<close> the statement fails: the first second of the year 10000 is an
  integer, \<open>utcfromtimestamp\<close> raises on it, and the extraction returns its failure.
\<close>

theorem freshness_out_of_range_counterexample:
  "py_int (JInt 253402300800) = Some 253402300800
   \<and> get_sec_last_status example_now
        (Mapping (map_of [(''feed_last_ac_sent_time'', JInt 253402300800)]))
      = Inl ''ValueError: Last Status could not be parsed''
   \<and> get_sec_last_status example_now
        (Mapping (map_of [(''feed_last_ac_sent_time'', JInt 253402300800)]))
      \<noteq> Inr (\<bar>example_now - 253402300800 * 1000000\<bar> div 1000000)"
  by (simp add: get_sec_last_status_def utcfromtimestamp_def MAX_TIMESTAMP_def MIN_TIMESTAMP_def)

section \<open>Required fields\<close>

text \<open>
  Claim C5, as amended. A required field that is absent makes the extraction that reads it
  fail: \<open>feed_last_ac_sent_time\<close> for freshness, the three counters for metrics, the three
  status fields for status. A value that \<open>int()\<close> rejects makes the extraction fail in the
  two timestamp fields, \<open>feed_last_ac_sent_time\<close> and \<open>feed_last_connected_time\<close>. The
  metrics extraction converts nothing: when the three counters are present it succeeds and
  hands their values on unchanged, whatever they are.
\<close>

theorem required_fields:
  "(subscript data ''feed_last_ac_sent_time'' = None \<longrightarrow>
      get_sec_last_status now data = Inl ''ValueError: Last Status could not be parsed'')
   \<and> (subscript data ''feed_last_ac_sent_time'' = Some v \<and> py_int v = None \<longrightarrow>
      get_sec_last_status now data = Inl ''ValueError: Last Status could not be parsed'')
   \<and> (subscript data ''feed_num_ac_adsb_tracked'' = None
        \<or> subscript data ''feed_num_ac_non_adsb_tracked'' = None
        \<or> subscript data ''feed_num_ac_tracked'' = None \<longrightarrow>
      get_metrics data = Inl ''ValueError: Metrics could not be parsed'')
   \<and> (subscript data ''feed_num_ac_adsb_tracked'' = Some x
        \<and> subscript data ''feed_num_ac_non_adsb_tracked'' = Some y
        \<and> subscript data ''feed_num_ac_tracked'' = Some z \<longrightarrow>
      get_metrics data = Inr \<lparr>adsb_tracked = x, non_adsb_tracked = y, sum_tracked = z\<rparr>)
   \<and> (subscript data ''feed_status'' = None
        \<or> subscript data ''last_rx_connect_status'' = None
        \<or> subscript data ''feed_last_connected_time'' = None \<longrightarrow>
      get_status data = Inl ''ValueError: Status could not be parsed'')
   \<and> (subscript data ''feed_last_connected_time'' = Some w \<and> py_int w = None \<longrightarrow>
      get_status data = Inl ''ValueError: Status could not be parsed'')"
  using get_sec_last_status_missing [of data now] get_sec_last_status_not_int [of data v now]
    get_metrics_missing [of data] get_metrics_present [of data x y z]
    get_status_missing [of data] get_status_not_int [of data w]
  by blast

text \<open>
  One response for each way to fail: text in the timestamp, a missing status field, no
  field at all, a missing counter and a formatted date in place of the connection
  time; and the counters of the second line, none of them a number, which are handed on.
\<close>

theorem required_fields_witness:
  "get_sec_last_status example_now (Mapping (map_of broken_fields))
     = Inl ''ValueError: Last Status could not be parsed''
   \<and> get_metrics (Mapping (map_of broken_fields))
     = Inr \<lparr>adsb_tracked = JStr ''five'', non_adsb_tracked = JNull, sum_tracked = JStr ''abc''\<rparr>
   \<and> get_status (Mapping (map_of broken_fields))
     = Inl ''ValueError: Status could not be parsed''
   \<and> get_sec_last_status example_now (Mapping (map_of []))
     = Inl ''ValueError: Last Status could not be parsed''
   \<and> get_metrics (example_without [''feed_num_ac_tracked''] 100 (JStr ''CONNECTED''))
     = Inl ''ValueError: Metrics could not be parsed''
   \<and> get_status (Mapping (map_of ((''feed_last_connected_time'', JStr ''2022-03-17 11:53:20'')
                                     # example_fields 100 (JStr ''CONNECTED''))))
     = Inl ''ValueError: Status could not be parsed''"
proof -
  let ?data = "Mapping (map_of broken_fields)"
  let ?less = "example_without [''feed_num_ac_tracked''] 100 (JStr ''CONNECTED'')"
  let ?text = "Mapping (map_of ((''feed_last_connected_time'', JStr ''2022-03-17 11:53:20'')
                                 # example_fields 100 (JStr ''CONNECTED'')))"
  have "subscript ?data ''feed_last_ac_sent_time'' = Some (JStr ''yesterday'')"
    and "py_int (JStr ''yesterday'') = None"
    and "subscript ?data ''feed_num_ac_adsb_tracked'' = Some (JStr ''five'')"
    and "subscript ?data ''feed_num_ac_non_adsb_tracked'' = Some JNull"
    and "subscript ?data ''feed_num_ac_tracked'' = Some (JStr ''abc'')"
    and "subscript ?data ''last_rx_connect_status'' = None"
    by code_simp+
  with required_fields [where data = ?data and now = example_now
        and v = "JStr ''yesterday''" and x = "JStr ''five''" and y = JNull and z = "JStr ''abc''"]
  have broken: "get_sec_last_status example_now ?data
        = Inl ''ValueError: Last Status could not be parsed''
      \<and> get_metrics ?data
        = Inr \<lparr>adsb_tracked = JStr ''five'', non_adsb_tracked = JNull, sum_tracked = JStr ''abc''\<rparr>
      \<and> get_status ?data = Inl ''ValueError: Status could not be parsed''"
    by blast
  have "subscript (Mapping (map_of [])) ''feed_last_ac_sent_time'' = None"
    by simp
  with required_fields [where data = "Mapping (map_of [])" and now = example_now]
  have empty: "get_sec_last_status example_now (Mapping (map_of []))
      = Inl ''ValueError: Last Status could not be parsed''"
    by blast
  have "subscript ?less ''feed_num_ac_tracked'' = None"
    by code_simp
  with required_fields [where data = ?less]
  have less: "get_metrics ?less = Inl ''ValueError: Metrics could not be parsed''"
    by blast
  have "subscript ?text ''feed_last_connected_time'' = Some (JStr ''2022-03-17 11:53:20'')"
    and "py_int (JStr ''2022-03-17 11:53:20'') = None"
    by code_simp+
  with required_fields [where data = ?text and w = "JStr ''2022-03-17 11:53:20''"]
  have stamp: "get_status ?text = Inl ''ValueError: Status could not be parsed''"
    by blast
  from broken empty less stamp show ?thesis
    by blast
qed

text \<open>
  The claim as stated fails for the counters: with the text \<open>abc\<close> in
  \<open>feed_num_ac_tracked\<close>, which \<open>int()\<close> rejects, the metrics extraction succeeds.
\<close>

theorem metrics_not_checked_counterexample:
  "py_int (JStr ''abc'') = None
   \<and> get_metrics (Mapping (map_of ((''feed_num_ac_tracked'', JStr ''abc'')
                                      # example_fields 100 (JStr ''CONNECTED''))))
     = Inr \<lparr>adsb_tracked = JInt 5, non_adsb_tracked = JInt 2, sum_tracked = JStr ''abc''\<rparr>"
  by code_simp

section \<open>A response without \<open>feed_num_ac_tracked\<close>\<close>

text \<open>
  Claim C6, as amended. When the decoded response is a mapping without the key
  \<open>feed_num_ac_tracked\<close>, the run exits with status 3. It prints exactly
  \<open>ValueError: Metrics could not be parsed\<close> when the freshness extraction, which runs
  first, succeeds; when that fails, its diagnostic is printed instead.
\<close>

theorem missing_sum_tracked:
  assumes "net (main_path a) = Inr (Mapping m)"
    and "m ''feed_num_ac_tracked'' = None"
  shows "exit_status (main (Namespace a) net now) = 3
    \<and> (get_sec_last_status now (Mapping m) = Inr e \<longrightarrow>
         main (Namespace a) net now = (print ''ValueError: Metrics could not be parsed'', 3))
    \<and> (get_sec_last_status now (Mapping m) = Inl d \<longrightarrow>
         main (Namespace a) net now = (print ''ValueError: Last Status could not be parsed'', 3))"
proof -
  have metrics: "get_metrics (Mapping m) = Inl ''ValueError: Metrics could not be parsed''"
    using assms(2) by (simp add: get_metrics_missing)
  have late: "main (Namespace a) net now = (print ''ValueError: Metrics could not be parsed'', 3)"
    if "get_sec_last_status now (Mapping m) = Inr e'" for e'
    using main_metrics_failed [where net = net and a = a and data = "Mapping m" and now = now
        and e = e' and d = "''ValueError: Metrics could not be parsed''"]
      assms(1) that metrics
    by (simp add: STATE_UNKNOWN_def)
  have early: "main (Namespace a) net now = (print ''ValueError: Last Status could not be parsed'', 3)"
    if "get_sec_last_status now (Mapping m) = Inl d'" for d'
    using main_freshness_failed [where net = net and a = a and data = "Mapping m" and now = now
        and d = d']
      get_sec_last_status_Inl [where now = now and data = "Mapping m" and d = d']
      assms(1) that
    by (simp add: STATE_UNKNOWN_def)
  have "exit_status (main (Namespace a) net now) = 3"
    by (cases "get_sec_last_status now (Mapping m)") (simp_all add: early late)
  with early late show ?thesis
    by blast
qed

theorem missing_sum_tracked_witness:
  "main (Namespace (default_args ''192.0.2.1''))
     (answering (example_without [''feed_num_ac_tracked''] 100 (JStr ''CONNECTED''))) example_now
   = (print ''ValueError: Metrics could not be parsed'', 3)"
proof -
  let ?a = "default_args ''192.0.2.1''"
  let ?m = "map_of (filter (\<lambda>(k, v). k \<notin> set [''feed_num_ac_tracked''])
                     (example_fields 100 (JStr ''CONNECTED'')))"
  have "answering (Mapping ?m) (main_path ?a) = Inr (Mapping ?m)"
    by (simp add: answering_def)
  moreover have "?m ''feed_num_ac_tracked'' = None"
    by code_simp
  moreover have "get_sec_last_status example_now (Mapping ?m) = Inr 100"
    by code_simp
  ultimately show ?thesis
    using missing_sum_tracked
      [where net = "answering (Mapping ?m)" and a = ?a and m = ?m and now = example_now and e = 100]
    by (simp add: example_without_def)
qed

text \<open>
  The empty JSON object lacks \<open>feed_num_ac_tracked\<close>, and the run prints the
  diagnostic of the freshness extraction, not that of the metrics extraction.
\<close>

theorem missing_sum_tracked_counterexample:
  "map_of [] ''feed_num_ac_tracked'' = (None :: jval option)
   \<and> main (Namespace (default_args ''192.0.2.1'')) (answering (Mapping (map_of []))) example_now
     = (print ''ValueError: Last Status could not be parsed'', 3)
   \<and> stdout (main (Namespace (default_args ''192.0.2.1'')) (answering (Mapping (map_of [])))
        example_now)
     \<noteq> print ''ValueError: Metrics could not be parsed''"
  by code_simp

section \<open>The command line\<close>

text \<open>
  Claim C7 says that the version flag ends the process with exit status 0. In the code the
  version action's \<open>SystemExit\<close> is caught by the handler around \<open>parse_args\<close> like any
  other: the version line is printed and the exit status is 3.
\<close>

theorem version_exits_unknown:
  "main (version_action prog) net now = (print (version_line prog), 3)
   \<and> version_line ''check_fr24feed.py'' = ''check_fr24feed.py: v2022031701 by Andreas Bucher''"
  by (simp add: version_action_def main_SystemExit STATE_UNKNOWN_def version_line_def
      version_number_def author_def)

text \<open>
  Claim C8. Whatever exit status the argument parser raises \<open>SystemExit\<close> with, the
  process exits with status 3; so a usage error, which the parser raises with status 2
  for malformed arguments and for a missing \<open>--host\<close>, ends in the Unknown state.
\<close>

theorem parser_exit_is_unknown:
  "exit_status (main (SystemExit printed code) net now) = 3
   \<and> main usage_error net now = ([], 3)"
  by (simp add: usage_error_def main_SystemExit STATE_UNKNOWN_def)

section \<open>The printed line\<close>

text \<open>
  Claim C9. Every run that reaches the threshold block prints one thing: the stripped
  message, a bar, and the stripped performance data. The performance data are the three
  fragments \<open>'adsb_tracked'=x;;;0; \<close>, \<open>'non_adsb_tracked'=y;;;0; \<close> and
  \<open>'sum_tracked'=z;;;0; \<close>, in this order, where \<open>x\<close>, \<open>y\<close>, \<open>z\<close> are the counters
  of the response as \<open>format\<close> writes them: no unit, empty warn, crit and max, a
  minimum of 0, and a space at the end. Stripping removes the space of the last fragment
  and nothing else. This holds for every value of the thresholds, of the elapsed seconds
  and of the status, so for every branch of the threshold block.
\<close>

theorem output_format:
  assumes "net (main_path a) = Inr data"
    and "get_sec_last_status now data = Inr e"
    and "subscript data ''feed_num_ac_adsb_tracked'' = Some x"
    and "subscript data ''feed_num_ac_non_adsb_tracked'' = Some y"
    and "subscript data ''feed_num_ac_tracked'' = Some z"
    and "get_status data = Inr st"
  shows "stdout (main (Namespace a) net now) =
           print (strip (fst (main_thresholds a e st)) @ ''|'' @
             strip (([squote] @ ''adsb_tracked'' @ [squote] @ ''='' @ py_format x @ '';;;0; '')
                  @ ([squote] @ ''non_adsb_tracked'' @ [squote] @ ''='' @ py_format y @ '';;;0; '')
                  @ ([squote] @ ''sum_tracked'' @ [squote] @ ''='' @ py_format z @ '';;;0; '')))
         \<and> strip (([squote] @ ''adsb_tracked'' @ [squote] @ ''='' @ py_format x @ '';;;0; '')
                  @ ([squote] @ ''non_adsb_tracked'' @ [squote] @ ''='' @ py_format y @ '';;;0; '')
                  @ ([squote] @ ''sum_tracked'' @ [squote] @ ''='' @ py_format z @ '';;;0; ''))
           = ([squote] @ ''adsb_tracked'' @ [squote] @ ''='' @ py_format x @ '';;;0; '')
                  @ ([squote] @ ''non_adsb_tracked'' @ [squote] @ ''='' @ py_format y @ '';;;0; '')
                  @ ([squote] @ ''sum_tracked'' @ [squote] @ ''='' @ py_format z @ '';;;0;'')"
proof
  let ?m = "\<lparr>adsb_tracked = x, non_adsb_tracked = y, sum_tracked = z\<rparr>"
  have "get_metrics data = Inr ?m"
    using assms(3-5) by (rule get_metrics_present)
  from assms(1,2) this assms(6) have "main (Namespace a) net now =
      (print (strip (fst (main_thresholds a e st)) @ ''|'' @ strip (main_perfdata ?m)),
       snd (main_thresholds a e st))"
    by (rule main_output)
  then show "stdout (main (Namespace a) net now) =
           print (strip (fst (main_thresholds a e st)) @ ''|'' @
             strip (([squote] @ ''adsb_tracked'' @ [squote] @ ''='' @ py_format x @ '';;;0; '')
                  @ ([squote] @ ''non_adsb_tracked'' @ [squote] @ ''='' @ py_format y @ '';;;0; '')
                  @ ([squote] @ ''sum_tracked'' @ [squote] @ ''='' @ py_format z @ '';;;0; '')))"
    by (simp add: main_perfdata_fragments)
next
  show "strip (([squote] @ ''adsb_tracked'' @ [squote] @ ''='' @ py_format x @ '';;;0; '')
                  @ ([squote] @ ''non_adsb_tracked'' @ [squote] @ ''='' @ py_format y @ '';;;0; '')
                  @ ([squote] @ ''sum_tracked'' @ [squote] @ ''='' @ py_format z @ '';;;0; ''))
           = ([squote] @ ''adsb_tracked'' @ [squote] @ ''='' @ py_format x @ '';;;0; '')
                  @ ([squote] @ ''non_adsb_tracked'' @ [squote] @ ''='' @ py_format y @ '';;;0; '')
                  @ ([squote] @ ''sum_tracked'' @ [squote] @ ''='' @ py_format z @ '';;;0;'')"
    using strip_three_fragments
      [of "''adsb_tracked'' @ [squote] @ ''='' @ py_format x"
          "''non_adsb_tracked'' @ [squote] @ ''='' @ py_format y"
          "''sum_tracked'' @ [squote] @ ''='' @ py_format z"]
    by simp
qed

text \<open>The example response, 100 seconds old, under the default thresholds.\<close>

theorem output_format_witness:
  "stdout (main (Namespace (default_args ''192.0.2.1''))
       (answering (example_response 100 (JStr ''CONNECTED''))) example_now)
   = print (''Feeder: OK - 100s since last upload'' @ [newline]
        @ ''Status: CONNECTED since 2022-03-17 11:53:20|''
        @ [squote] @ ''adsb_tracked'' @ [squote] @ ''=5;;;0; ''
        @ [squote] @ ''non_adsb_tracked'' @ [squote] @ ''=2;;;0; ''
        @ [squote] @ ''sum_tracked'' @ [squote] @ ''=7;;;0;'')"
proof -
  let ?a = "default_args ''192.0.2.1''"
  let ?data = "example_response 100 (JStr ''CONNECTED'')"
  let ?st = "\<lparr>feed_status = JStr ''CONNECTED'', last_rx_connect_status = JStr ''CONNECTED'',
             feed_last_connected_time = ''2022-03-17 11:53:20''\<rparr>"
  have "answering ?data (main_path ?a) = Inr ?data"
    by (simp add: answering_def)
  moreover have "get_sec_last_status example_now ?data = Inr 100"
    and "subscript ?data ''feed_num_ac_adsb_tracked'' = Some (JInt 5)"
    and "subscript ?data ''feed_num_ac_non_adsb_tracked'' = Some (JInt 2)"
    and "subscript ?data ''feed_num_ac_tracked'' = Some (JInt 7)"
    and "get_status ?data = Inr ?st"
    by code_simp+
  ultimately have "stdout (main (Namespace ?a) (answering ?data) example_now) =
      print (strip (fst (main_thresholds ?a 100 ?st)) @ ''|'' @
        (([squote] @ ''adsb_tracked'' @ [squote] @ ''='' @ py_format (JInt 5) @ '';;;0; '')
         @ ([squote] @ ''non_adsb_tracked'' @ [squote] @ ''='' @ py_format (JInt 2) @ '';;;0; '')
         @ ([squote] @ ''sum_tracked'' @ [squote] @ ''='' @ py_format (JInt 7) @ '';;;0;'')))"
    using output_format [where net = "answering ?data" and a = ?a and data = ?data
        and now = example_now and e = 100 and x = "JInt 5" and y = "JInt 2" and z = "JInt 7"
        and st = ?st]
    by simp
  moreover have "strip (fst (main_thresholds ?a 100 ?st)) =
      ''Feeder: OK - 100s since last upload'' @ [newline]
        @ ''Status: CONNECTED since 2022-03-17 11:53:20''"
    by code_simp
  moreover have "py_format (JInt 5) = ''5''" and "py_format (JInt 2) = ''2''"
    and "py_format (JInt 7) = ''7''"
    by code_simp+
  ultimately show ?thesis
    by simp
qed

section \<open>Where the status text appears\<close>

text \<open>
  Claim C10. Take a run whose fetch, freshness and metrics succeed. If the status
  extraction fails, the run ends with its diagnostic and status 3, so no branch of the
  threshold block is reached without a status. If it succeeds, the Critical and Warning
  lines are \<open>CRIT threshold reached: e\<close> and \<open>WARN threshold reached: e\<close>, followed by
  the performance data: nothing of the status enters them, they are the same for every
  status. The Healthy line is \<open>Feeder: OK - es since last upload\<close>, a line break,
  \<open>Status: \<close>, the status text, \<open> since \<close> and the time of the last connection.
\<close>

theorem status_text_only_when_healthy:
  assumes "net (main_path a) = Inr data"
    and "get_sec_last_status now data = Inr e"
    and "get_metrics data = Inr m"
  shows "(get_status data = Inl d \<longrightarrow>
            main (Namespace a) net now = (print ''ValueError: Status could not be parsed'', 3))
    \<and> (get_status data = Inr st \<and> CRIT a < e \<longrightarrow>
            main (Namespace a) net now =
              (print (''CRIT threshold reached: '' @ str_int e @ ''|'' @ strip (main_perfdata m)), 2))
    \<and> (get_status data = Inr st \<and> e \<le> CRIT a \<and> WARN a < e \<longrightarrow>
            main (Namespace a) net now =
              (print (''WARN threshold reached: '' @ str_int e @ ''|'' @ strip (main_perfdata m)), 1))
    \<and> (get_status data = Inr st \<and> e \<le> CRIT a \<and> e \<le> WARN a \<and> feed_status st = JStr s \<longrightarrow>
            main (Namespace a) net now =
              (print (''Feeder: OK - '' @ str_int e @ ''s since last upload'' @ [newline]
                      @ ''Status: '' @ s @ '' since '' @ feed_last_connected_time st
                      @ ''|'' @ strip (main_perfdata m)), 0))"
proof (intro conjI impI)
  assume failed: "get_status data = Inl d"
  then have "d = ''ValueError: Status could not be parsed''"
    by (rule get_status_Inl)
  with main_status_failed [where net = net and a = a, OF assms failed]
  show "main (Namespace a) net now = (print ''ValueError: Status could not be parsed'', 3)"
    by (simp add: STATE_UNKNOWN_def)
next
  assume "get_status data = Inr st \<and> CRIT a < e"
  then have st: "get_status data = Inr st" and crit: "CRIT a < e"
    by simp_all
  from main_output [where net = net and a = a, OF assms st] printed_crit [OF crit, of st]
  show "main (Namespace a) net now =
      (print (''CRIT threshold reached: '' @ str_int e @ ''|'' @ strip (main_perfdata m)), 2)"
    by simp
next
  assume "get_status data = Inr st \<and> e \<le> CRIT a \<and> WARN a < e"
  then have st: "get_status data = Inr st" and warn: "e \<le> CRIT a" "WARN a < e"
    by simp_all
  from main_output [where net = net and a = a, OF assms st] printed_warn [OF warn, of st]
  show "main (Namespace a) net now =
      (print (''WARN threshold reached: '' @ str_int e @ ''|'' @ strip (main_perfdata m)), 1)"
    by simp
next
  assume "get_status data = Inr st \<and> e \<le> CRIT a \<and> e \<le> WARN a \<and> feed_status st = JStr s"
  then have st: "get_status data = Inr st" and ok: "e \<le> CRIT a" "e \<le> WARN a" "feed_status st = JStr s"
    by simp_all
  from get_status_Inr [OF st] obtain dt where "feed_last_connected_time st = strftime dt"
    by blast
  from main_output [where net = net and a = a, OF assms st] printed_ok [OF ok this]
  show "main (Namespace a) net now =
      (print (''Feeder: OK - '' @ str_int e @ ''s since last upload'' @ [newline]
              @ ''Status: '' @ s @ '' since '' @ feed_last_connected_time st
              @ ''|'' @ strip (main_perfdata m)), 0)"
    by simp
qed

text \<open>
  Four runs under the default thresholds: a response without \<open>feed_status\<close>, and
  responses that are 4000, 700 and 100 seconds old.
\<close>

theorem status_text_only_when_healthy_witness:
  "main (Namespace (default_args ''192.0.2.1''))
       (answering (example_without [''feed_status''] 4000 (JStr ''CONNECTED''))) example_now
     = (print ''ValueError: Status could not be parsed'', 3)
   \<and> main (Namespace (default_args ''192.0.2.1''))
       (answering (example_response 4000 (JStr ''CONNECTED''))) example_now
     = (print (''CRIT threshold reached: 4000|''
          @ [squote] @ ''adsb_tracked'' @ [squote] @ ''=5;;;0; ''
          @ [squote] @ ''non_adsb_tracked'' @ [squote] @ ''=2;;;0; ''
          @ [squote] @ ''sum_tracked'' @ [squote] @ ''=7;;;0;''), 2)
   \<and> main (Namespace (default_args ''192.0.2.1''))
       (answering (example_response 700 (JStr ''CONNECTED''))) example_now
     = (print (''WARN threshold reached: 700|''
          @ [squote] @ ''adsb_tracked'' @ [squote] @ ''=5;;;0; ''
          @ [squote] @ ''non_adsb_tracked'' @ [squote] @ ''=2;;;0; ''
          @ [squote] @ ''sum_tracked'' @ [squote] @ ''=7;;;0;''), 1)
   \<and> main (Namespace (default_args ''192.0.2.1''))
       (answering (example_response 100 (JStr ''CONNECTED''))) example_now
     = (print (''Feeder: OK - 100s since last upload'' @ [newline]
          @ ''Status: CONNECTED since 2022-03-17 11:53:20|''
          @ [squote] @ ''adsb_tracked'' @ [squote] @ ''=5;;;0; ''
          @ [squote] @ ''non_adsb_tracked'' @ [squote] @ ''=2;;;0; ''
          @ [squote] @ ''sum_tracked'' @ [squote] @ ''=7;;;0;''), 0)"
proof -
  let ?a = "default_args ''192.0.2.1''"
  let ?m = "\<lparr>adsb_tracked = JInt 5, non_adsb_tracked = JInt 2, sum_tracked = JInt 7\<rparr>"
  let ?st = "\<lparr>feed_status = JStr ''CONNECTED'', last_rx_connect_status = JStr ''CONNECTED'',
             feed_last_connected_time = ''2022-03-17 11:53:20''\<rparr>"
  let ?pd = "[squote] @ ''adsb_tracked'' @ [squote] @ ''=5;;;0; ''
          @ [squote] @ ''non_adsb_tracked'' @ [squote] @ ''=2;;;0; ''
          @ [squote] @ ''sum_tracked'' @ [squote] @ ''=7;;;0;''"
  have pd: "strip (main_perfdata ?m) = ?pd"
    by code_simp
  have thresholds: "CRIT ?a = 3600" "WARN ?a = 600"
    by (simp_all add: default_args_def DEFAULT_CRIT_def DEFAULT_WARN_def)
  have digits: "str_int 4000 = ''4000''" "str_int 700 = ''700''" "str_int 100 = ''100''"
    by code_simp+
  have net: "answering data (main_path ?a) = Inr data" for data
    by (simp add: answering_def)
  let ?broken = "example_without [''feed_status''] 4000 (JStr ''CONNECTED'')"
  have "get_sec_last_status example_now ?broken = Inr 4000"
    and "get_metrics ?broken = Inr ?m"
    and "get_status ?broken = Inl ''ValueError: Status could not be parsed''"
    by code_simp+
  with status_text_only_when_healthy
    [where net = "answering ?broken" and a = ?a and data = ?broken and now = example_now
       and e = 4000 and m = ?m and d = "''ValueError: Status could not be parsed''"]
  have one: "main (Namespace ?a) (answering ?broken) example_now
      = (print ''ValueError: Status could not be parsed'', 3)"
    using net by blast
  let ?crit = "example_response 4000 (JStr ''CONNECTED'')"
  have "get_sec_last_status example_now ?crit = Inr 4000"
    and "get_metrics ?crit = Inr ?m"
    and "get_status ?crit = Inr ?st"
    by code_simp+
  with status_text_only_when_healthy
    [where net = "answering ?crit" and a = ?a and data = ?crit and now = example_now
       and e = 4000 and m = ?m and st = ?st]
  have two: "main (Namespace ?a) (answering ?crit) example_now
      = (print (''CRIT threshold reached: 4000|'' @ ?pd), 2)"
    using net by (simp add: thresholds pd digits)
  let ?warn = "example_response 700 (JStr ''CONNECTED'')"
  have "get_sec_last_status example_now ?warn = Inr 700"
    and "get_metrics ?warn = Inr ?m"
    and "get_status ?warn = Inr ?st"
    by code_simp+
  with status_text_only_when_healthy
    [where net = "answering ?warn" and a = ?a and data = ?warn and now = example_now
       and e = 700 and m = ?m and st = ?st]
  have three: "main (Namespace ?a) (answering ?warn) example_now
      = (print (''WARN threshold reached: 700|'' @ ?pd), 1)"
    using net by (simp add: thresholds pd digits)
  let ?ok = "example_response 100 (JStr ''CONNECTED'')"
  have "get_sec_last_status example_now ?ok = Inr 100"
    and "get_metrics ?ok = Inr ?m"
    and "get_status ?ok = Inr ?st"
    by code_simp+
  with status_text_only_when_healthy
    [where net = "answering ?ok" and a = ?a and data = ?ok and now = example_now
       and e = 100 and m = ?m and st = ?st and s = "''CONNECTED''"]
  have four: "main (Namespace ?a) (answering ?ok) example_now
      = (print (''Feeder: OK - 100s since last upload'' @ [newline]
          @ ''Status: CONNECTED since 2022-03-17 11:53:20|'' @ ?pd), 0)"
    using net by (simp add: thresholds pd digits)
  from one two three four show ?thesis
    by simp
qed

end
